theory Spec2Isabelle
  imports Complex_Main "HOL-Library.AList"
begin

section \<open>Python values, errors and dictionaries\<close>

text \<open>
  The values that flow through \<^verbatim>\<open>__init__.py\<close>: numbers, strings, lists, tuples,
  dictionaries with string keys, and opaque host objects (an image tensor, a loaded
  ControlNet model), which the module only passes on and never looks into.
\<close>

datatype pyval =
    PyNone
  | PyInt int
  | PyFloat real
  | PyStr string
  | PyList "pyval list"
  | PyTuple "pyval list"
  | PyDict "(string \<times> pyval) list"
  | PyObj nat

text \<open>Every \<^verbatim>\<open>raise\<close> of the module and of the Python operations it uses is a value.\<close>

datatype error =
    KeyError
  | TypeError
  | IndexError
  | AttributeError
  | RuntimeError string
  | UnitError string

text \<open>
  A Python \<^verbatim>\<open>dict\<close> is an association list in insertion order. \<^verbatim>\<open>d[k] = v\<close> is
  \<^const>\<open>AList.update\<close>: an existing key keeps its position and takes the new value, a new
  key goes to the end. \<^verbatim>\<open>d.update(other)\<close> stores the items of \<^verbatim>\<open>other\<close> one by one.
\<close>

type_synonym ('k, 'v) dict = "('k \<times> 'v) list"

definition dict_update :: "('k, 'v) dict \<Rightarrow> ('k, 'v) dict \<Rightarrow> ('k, 'v) dict" where
  "dict_update d other = fold (\<lambda>(k, v). AList.update k v) other d"

definition dict_keys :: "('k, 'v) dict \<Rightarrow> 'k list" where
  "dict_keys d = map fst d"

text \<open>
  The source's variable \<^verbatim>\<open>image\<close> is \<open>img\<close> throughout, since \<open>image\<close> is a constant of HOL.
\<close>

section \<open>\<^verbatim>\<open>preprocessor_options\<close>\<close>

text \<open>
  \<^verbatim>\<open>AIO_NOT_SUPPORTED\<close>, the module constant built up in three statements (lines 64 to 66).
\<close>

definition AIO_NOT_SUPPORTED :: "string list" where
  "AIO_NOT_SUPPORTED =
     [''InpaintPreprocessor'', ''MeshGraphormer+ImpactDetector-DepthMapPreprocessor'',
      ''DiffusionEdge_Preprocessor'']
     @ [''SavePoseKpsAsJsonFile'', ''FacialPartColoringFromPoseKps'',
        ''UpperBodyTrackingFromPoseKps'', ''RenderPeopleKps'', ''RenderAnimalKps'']
     @ [''Unimatch_OptFlowPreprocessor'', ''MaskOptFlow'']"

text \<open>
  The loop \<^verbatim>\<open>for name in AIO_NOT_SUPPORTED: if name in auxs: auxs.remove(name)\<close>.
  \<^verbatim>\<open>list.remove\<close> deletes the first occurrence, which is \<^const>\<open>remove1\<close>.
\<close>

fun remove_not_supported :: "string list \<Rightarrow> string list \<Rightarrow> string list" where
  "remove_not_supported [] auxs = auxs"
| "remove_not_supported (name # names) auxs =
     remove_not_supported names (if name \<in> set auxs then remove1 name auxs else auxs)"

text \<open>
  \<^verbatim>\<open>preprocessor_options()\<close> takes no argument. It reads the registry
  \<^verbatim>\<open>AUX_NODE_MAPPINGS\<close>, which \<^verbatim>\<open>load_nodes\<close> computes and which is the argument here,
  and the constant \<^verbatim>\<open>AIO_NOT_SUPPORTED\<close>. \<^verbatim>\<open>list(AUX_NODE_MAPPINGS.keys())\<close> is a fresh
  list, so the registry is not changed.
\<close>

definition preprocessor_options :: "(string, 'u) dict \<Rightarrow> string list" where
  "preprocessor_options AUX_NODE_MAPPINGS =
     remove_not_supported AIO_NOT_SUPPORTED (''none'' # dict_keys AUX_NODE_MAPPINGS)"

definition PREPROCESSOR_OPTIONS :: "(string, 'u) dict \<Rightarrow> string list" where
  "PREPROCESSOR_OPTIONS AUX_NODE_MAPPINGS = preprocessor_options AUX_NODE_MAPPINGS"

section \<open>Units\<close>

text \<open>
  What the schema of a unit says about one parameter: the tuple \<^verbatim>\<open>(type,)\<close> or
  \<^verbatim>\<open>(type, {options})\<close> of the host's \<^verbatim>\<open>INPUT_TYPES\<close> protocol. \<open>tag\<close> is
  \<^verbatim>\<open>input_type[0]\<close>, a type name or a list of choices; \<open>opts\<close> is \<^verbatim>\<open>input_type[1]\<close>,
  and \<open>None\<close> for the tuple of length 1, so \<^verbatim>\<open>len(input_type) == 2\<close> is \<open>opts \<noteq> None\<close>.
\<close>

datatype input_type = InputType (tag: pyval) (opts: "(string, pyval) dict option")

text \<open>
  What a unit's entry point returns under the host protocol: a plain tuple, or a
  dictionary with a \<^verbatim>\<open>"result"\<close> tuple and optional expansion data.
\<close>

datatype returned = Plain "pyval list" | Structured "(string, pyval) dict"

text \<open>
  The signature of a Python function: its named parameters in the order of the
  \<^verbatim>\<open>def\<close>, each positional-only, positional-or-keyword or keyword-only and with or
  without a default; whether it has \<^verbatim>\<open>*args\<close> and \<^verbatim>\<open>**kwargs\<close>; and whether the
  attribute that \<^verbatim>\<open>getattr\<close> finds on an instance is bound (a method or a class method,
  which pass the instance or the class as the first positional argument) or not (a static
  method).
\<close>

datatype kind = PositionalOnly | PositionalOrKeyword | KeywordOnly

record parameter =
  param_name :: string
  param_kind :: kind
  has_default :: bool

record py_function =
  parameters :: "parameter list"
  var_positional :: bool
  var_keyword :: bool
  binds_instance :: bool
  body :: "(string, pyval) dict \<Rightarrow> error + returned"

text \<open>
  A node class of \<^verbatim>\<open>node_wrappers\<close>: the dictionary its \<^verbatim>\<open>INPUT_TYPES()\<close> returns (group
  name to schema), its \<^verbatim>\<open>FUNCTION\<close> attribute, and the methods \<^verbatim>\<open>getattr\<close> finds on an
  instance. \<^verbatim>\<open>INPUT_TYPES()\<close> and the constructor are taken not to raise.
\<close>

record unit_class =
  INPUT_TYPES :: "(string, (string, input_type) dict) dict"
  FUNCTION :: string
  methods :: "(string, py_function) dict"

section \<open>\<^verbatim>\<open>load_nodes\<close>\<close>














section \<open>The argument loops of the two adapters\<close>

text \<open>
  Python looks a key up in a dictionary by its hash: a list or a dictionary as the key
  raises \<^verbatim>\<open>TypeError: unhashable type\<close>, a tuple is hashable when its items are.
\<close>

fun hashable :: "pyval \<Rightarrow> bool" where
  "hashable (PyList xs) = False"
| "hashable (PyDict d) = False"
| "hashable (PyTuple xs) = list_all hashable xs"
| "hashable v = True"

text \<open>\<^verbatim>\<open>key in d\<close> and \<^verbatim>\<open>d[key]\<close> for a dictionary whose keys are strings.\<close>

definition dict_contains :: "(string, 'v) dict \<Rightarrow> pyval \<Rightarrow> error + bool" where
  "dict_contains d key =
     (if \<not> hashable key then Inl TypeError
      else case key of PyStr k \<Rightarrow> Inr (map_of d k \<noteq> None) | _ \<Rightarrow> Inr False)"

definition dict_getitem :: "(string, 'v) dict \<Rightarrow> pyval \<Rightarrow> error + 'v" where
  "dict_getitem d key =
     (if \<not> hashable key then Inl TypeError
      else case key of
             PyStr k \<Rightarrow> (case map_of d k of None \<Rightarrow> Inl KeyError | Some v \<Rightarrow> Inr v)
           | _ \<Rightarrow> Inl KeyError)"

definition default_values :: "(string, pyval) dict" where
  "default_values = [(''INT'', PyInt 0), (''FLOAT'', PyFloat 0)]"

text \<open>
  \<^verbatim>\<open>len(input_type) == 2 and ("default" in input_type[1])\<close>, with the value
  \<^verbatim>\<open>input_type[1]["default"]\<close> when the test holds.
\<close>

definition declared_default :: "input_type \<Rightarrow> pyval option" where
  "declared_default input_type =
     (case opts input_type of None \<Rightarrow> None | Some options \<Rightarrow> map_of options ''default'')"

text \<open>
  \<^verbatim>\<open>{**input_types["required"], **(input_types["optional"] if "optional" in input_types else {})}\<close>
\<close>

definition merged_input_types :: "unit_class \<Rightarrow> error + (string, input_type) dict" where
  "merged_input_types aux_class =
     (let input_types = INPUT_TYPES aux_class
      in case map_of input_types ''required'' of
           None \<Rightarrow> Inl KeyError
         | Some required \<Rightarrow>
             Inr (dict_update (dict_update [] required)
                    (case map_of input_types ''optional'' of
                       Some optional \<Rightarrow> optional
                     | None \<Rightarrow> [])))"

text \<open>
  Lines 118 to 120 of \<^verbatim>\<open>AIO_Preprocessor.execute\<close>, the loop over the choices of a list
  type. The subscript of \<^verbatim>\<open>default_values\<close> is \<^verbatim>\<open>input_type[0]\<close>, the list itself.
\<close>

fun aio_choices ::
  "pyval \<Rightarrow> pyval list \<Rightarrow> string \<Rightarrow> (string, pyval) dict \<Rightarrow> error + (string, pyval) dict" where
  "aio_choices input_type0 [] name params = Inr params"
| "aio_choices input_type0 (input_type_value # rest) name params =
     (case dict_contains default_values input_type_value of
        Inl e \<Rightarrow> Inl e
      | Inr found \<Rightarrow>
          if found then
            (case dict_getitem default_values input_type0 of
               Inl e \<Rightarrow> Inl e
             | Inr v \<Rightarrow> aio_choices input_type0 rest name (AList.update name v params))
          else aio_choices input_type0 rest name params)"

text \<open>
  \<^verbatim>\<open>if input_type[0] in default_values: params[name] = default_values[input_type[0]]\<close>,
  the last statement of both loops (line 122 and line 259).
\<close>

definition bind_type_default ::
  "pyval \<Rightarrow> string \<Rightarrow> (string, pyval) dict \<Rightarrow> error + (string, pyval) dict" where
  "bind_type_default input_type0 name params =
     (case dict_contains default_values input_type0 of
        Inl e \<Rightarrow> Inl e
      | Inr found \<Rightarrow>
          if found then
            (case dict_getitem default_values input_type0 of
               Inl e \<Rightarrow> Inl e
             | Inr v \<Rightarrow> Inr (AList.update name v params))
          else Inr params)"

text \<open>One pass through the body of the loop of \<^verbatim>\<open>AIO_Preprocessor.execute\<close> (lines 104 to 123).\<close>

definition aio_bind ::
  "pyval \<Rightarrow> pyval \<Rightarrow> (string, pyval) dict \<Rightarrow> string \<Rightarrow> input_type
     \<Rightarrow> error + (string, pyval) dict" where
  "aio_bind img resolution params name input_type =
     (if name = ''image'' then Inr (AList.update name img params)
      else if name = ''resolution'' then Inr (AList.update name resolution params)
      else case declared_default input_type of
             Some d \<Rightarrow> Inr (AList.update name d params)
           | None \<Rightarrow>
               (case tag input_type of
                  PyList choices \<Rightarrow> aio_choices (tag input_type) choices name params
                | _ \<Rightarrow> bind_type_default (tag input_type) name params))"

fun aio_params ::
  "pyval \<Rightarrow> pyval \<Rightarrow> (string, pyval) dict \<Rightarrow> (string, input_type) dict
     \<Rightarrow> error + (string, pyval) dict" where
  "aio_params img resolution params [] = Inr params"
| "aio_params img resolution params ((name, input_type) # rest) =
     (case aio_bind img resolution params name input_type of
        Inl e \<Rightarrow> Inl e
      | Inr params' \<Rightarrow> aio_params img resolution params' rest)"

text \<open>
  The body of the loop of \<^verbatim>\<open>ControlNetPreprocessorSelector.get_preprocessor\<close>
  (lines 246 to 259), which has no branch for a list type.
\<close>

definition selector_bind ::
  "pyval \<Rightarrow> pyval \<Rightarrow> (string, pyval) dict \<Rightarrow> string \<Rightarrow> input_type
     \<Rightarrow> error + (string, pyval) dict" where
  "selector_bind img resolution params name input_type =
     (if name = ''image'' then Inr (AList.update name img params)
      else if name = ''resolution'' then Inr (AList.update name resolution params)
      else case declared_default input_type of
             Some d \<Rightarrow> Inr (AList.update name d params)
           | None \<Rightarrow> bind_type_default (tag input_type) name params)"

fun selector_params ::
  "pyval \<Rightarrow> pyval \<Rightarrow> (string, pyval) dict \<Rightarrow> (string, input_type) dict
     \<Rightarrow> error + (string, pyval) dict" where
  "selector_params img resolution params [] = Inr params"
| "selector_params img resolution params ((name, input_type) # rest) =
     (case selector_bind img resolution params name input_type of
        Inl e \<Rightarrow> Inl e
      | Inr params' \<Rightarrow> selector_params img resolution params' rest)"

section \<open>Calling the unit\<close>

text \<open>
  How Python binds the arguments of the call \<^verbatim>\<open>f(**params)\<close>, in which the only
  positional argument is the instance of a bound attribute.

  The instance goes to the first parameter that takes a positional argument, or into
  \<^verbatim>\<open>*args\<close> when there is none; with neither, the call raises \<^verbatim>\<open>TypeError\<close>.
\<close>

definition instance_parameter :: "py_function \<Rightarrow> parameter option" where
  "instance_parameter f =
     (if binds_instance f then
        (case filter (\<lambda>p. param_kind p \<noteq> KeywordOnly) (parameters f) of
           [] \<Rightarrow> None
         | p # _ \<Rightarrow> Some p)
      else None)"

definition no_instance_slot :: "py_function \<Rightarrow> bool" where
  "no_instance_slot f =
     (binds_instance f \<and> filter (\<lambda>p. param_kind p \<noteq> KeywordOnly) (parameters f) = []
      \<and> \<not> var_positional f)"

text \<open>
  A keyword binds the parameter of that name unless the parameter is positional-only.
  When that parameter already holds the instance the call raises \<^verbatim>\<open>TypeError\<close>
  (multiple values), also with \<^verbatim>\<open>**kwargs\<close>. A keyword that binds no parameter goes into
  \<^verbatim>\<open>**kwargs\<close>, and without \<^verbatim>\<open>**kwargs\<close> the call raises \<^verbatim>\<open>TypeError\<close>.
\<close>

definition keyword_parameter :: "py_function \<Rightarrow> string \<Rightarrow> parameter option" where
  "keyword_parameter f k =
     find (\<lambda>p. param_name p = k \<and> param_kind p \<noteq> PositionalOnly) (parameters f)"

definition keyword_accepted :: "py_function \<Rightarrow> string \<Rightarrow> bool" where
  "keyword_accepted f k =
     (case keyword_parameter f k of
        Some p \<Rightarrow> instance_parameter f \<noteq> Some p
      | None \<Rightarrow> var_keyword f)"

definition accepts :: "py_function \<Rightarrow> string list \<Rightarrow> bool" where
  "accepts f keywords = (\<not> no_instance_slot f \<and> list_all (keyword_accepted f) keywords)"

text \<open>
  The parameters without a default, other than the one that holds the instance. Each
  must be bound by a keyword, which a positional-only one never is; otherwise the call
  raises \<^verbatim>\<open>TypeError\<close> (missing argument).
\<close>

definition requires :: "py_function \<Rightarrow> parameter list" where
  "requires f =
     filter (\<lambda>p. \<not> has_default p)
       (case instance_parameter f of
          None \<Rightarrow> parameters f
        | Some self \<Rightarrow> remove1 self (parameters f))"

definition call_kw :: "py_function \<Rightarrow> (string, pyval) dict \<Rightarrow> error + returned" where
  "call_kw f params =
     (if \<not> accepts f (dict_keys params) then Inl TypeError
      else if list_ex (\<lambda>p. param_kind p = PositionalOnly \<or> param_name p \<notin> set (dict_keys params))
                (requires f)
      then Inl TypeError
      else body f params)"

text \<open>\<^verbatim>\<open>getattr(aux_class(), aux_class.FUNCTION)(**params)\<close>\<close>

definition call_unit :: "unit_class \<Rightarrow> (string, pyval) dict \<Rightarrow> error + returned" where
  "call_unit aux_class params =
     (case map_of (methods aux_class) (FUNCTION aux_class) of
        None \<Rightarrow> Inl AttributeError
      | Some f \<Rightarrow> call_kw f params)"

section \<open>\<^verbatim>\<open>AIO_Preprocessor.execute\<close>\<close>

text \<open>
  \<^verbatim>\<open>def execute(self, preprocessor, image, resolution=512)\<close>: a caller that leaves the
  resolution out passes \<open>None\<close> here and the default 512 is taken.
\<close>

definition AIO_execute ::
  "(string, unit_class) dict \<Rightarrow> string \<Rightarrow> pyval \<Rightarrow> pyval option \<Rightarrow> error + returned" where
  "AIO_execute AUX_NODE_MAPPINGS preprocessor img resolution_arg =
     (let resolution = (case resolution_arg of None \<Rightarrow> PyInt 512 | Some r \<Rightarrow> r)
      in if preprocessor = ''none'' then Inr (Plain [img])
         else case map_of AUX_NODE_MAPPINGS preprocessor of
                None \<Rightarrow> Inl KeyError
              | Some aux_class \<Rightarrow>
                  (case merged_input_types aux_class of
                     Inl e \<Rightarrow> Inl e
                   | Inr input_types \<Rightarrow>
                       (case aio_params img resolution [] input_types of
                          Inl e \<Rightarrow> Inl e
                        | Inr params \<Rightarrow> call_unit aux_class params)))"

section \<open>\<^verbatim>\<open>ControlNetPreprocessorSelector.get_preprocessor\<close>\<close>

text \<open>
  \<^verbatim>\<open>(cnmodel,) + predict["result"]\<close> and \<^verbatim>\<open>(cnmodel,) + predict\<close>: tuple concatenation
  takes a tuple on the right.
\<close>

definition selector_return :: "pyval \<Rightarrow> returned \<Rightarrow> error + pyval list" where
  "selector_return cnmodel predict =
     (case predict of
        Structured d \<Rightarrow>
          (case map_of d ''result'' of
             None \<Rightarrow> Inl KeyError
           | Some (PyTuple t) \<Rightarrow> Inr (cnmodel # t)
           | Some _ \<Rightarrow> Inl TypeError)
      | Plain t \<Rightarrow> Inr (cnmodel # t))"

text \<open>
  \<^verbatim>\<open>prompt[my_unique_id]["inputs"]['select_styles']\<close>. The prompt maps the id of a node
  to the \<^verbatim>\<open>"inputs"\<close> dictionary of that node (the host gives every node one); both
  hidden inputs default to \<^verbatim>\<open>None\<close>, and \<^verbatim>\<open>None\<close> has no subscript.
\<close>

definition select_styles ::
  "(string, (string, pyval) dict) dict option \<Rightarrow> string option \<Rightarrow> error + pyval" where
  "select_styles prompt my_unique_id =
     (case prompt of
        None \<Rightarrow> Inl TypeError
      | Some p \<Rightarrow>
          (case my_unique_id of
             None \<Rightarrow> Inl KeyError
           | Some uid \<Rightarrow>
               (case map_of p uid of
                  None \<Rightarrow> Inl KeyError
                | Some node_inputs \<Rightarrow>
                    (case map_of node_inputs ''select_styles'' of
                       None \<Rightarrow> Inl KeyError
                     | Some v \<Rightarrow> Inr v))))"

text \<open>
  \<open>load_controlnet\<close> stands for
  \<^verbatim>\<open>comfy.controlnet.load_controlnet(folder_paths.get_full_path("controlnet", cn))\<close>,
  a call into the host.
\<close>

definition get_preprocessor ::
  "(string \<Rightarrow> error + pyval) \<Rightarrow> (string, unit_class) dict \<Rightarrow> string \<Rightarrow> pyval \<Rightarrow> pyval option
     \<Rightarrow> (string, (string, pyval) dict) dict option \<Rightarrow> string option \<Rightarrow> error + pyval list" where
  "get_preprocessor load_controlnet AUX_NODE_MAPPINGS cn img resolution_arg prompt my_unique_id =
     (let resolution = (case resolution_arg of None \<Rightarrow> PyInt 512 | Some r \<Rightarrow> r)
      in case load_controlnet cn of
           Inl e \<Rightarrow> Inl e
         | Inr cnmodel \<Rightarrow>
             (case select_styles prompt my_unique_id of
                Inl e \<Rightarrow> Inl e
              | Inr cnprepro \<Rightarrow>
                  if cnprepro = PyStr ''none'' then Inr [cnmodel, img]
                  else
                    (case dict_getitem AUX_NODE_MAPPINGS cnprepro of
                       Inl e \<Rightarrow> Inl e
                     | Inr aux_class \<Rightarrow>
                         (case merged_input_types aux_class of
                            Inl e \<Rightarrow> Inl e
                          | Inr input_types \<Rightarrow>
                              (case selector_params img resolution [] input_types of
                                 Inl e \<Rightarrow> Inl e
                               | Inr params \<Rightarrow>
                                   (case call_unit aux_class params of
                                      Inl e \<Rightarrow> Inl e
                                    | Inr predict \<Rightarrow> selector_return cnmodel predict))))))"

section \<open>\<^verbatim>\<open>ExecuteAllControlNetPreprocessors.execute\<close>\<close>

text \<open>
  Modelled from the spec: \<^verbatim>\<open>GraphBuilder\<close> belongs to the host
  (\<^verbatim>\<open>comfy_execution.graph_utils\<close>) and is not part of the repository. The spec describes
  the execution graph as node instances with output ports, wired by edges from an output
  port to an input parameter. Here the builder is the list of the nodes created so far;
  \<^verbatim>\<open>graph.node(class_type, **kwargs)\<close> appends a node and gives it its position as id,
  \<^verbatim>\<open>node.out(i)\<close> is the reference to output port \<open>i\<close> of that node, and
  \<^verbatim>\<open>graph.finalize()\<close> is the list itself.
\<close>

datatype graph_value = Literal pyval | Link nat nat

record graph_node =
  class_type :: string
  inputs :: "(string, graph_value) dict"

type_synonym graph = "graph_node list"

definition node :: "graph \<Rightarrow> string \<Rightarrow> (string, graph_value) dict \<Rightarrow> graph \<times> nat" where
  "node graph cls kwargs = (graph @ [\<lparr>class_type = cls, inputs = kwargs\<rparr>], length graph)"

definition out :: "nat \<Rightarrow> nat \<Rightarrow> graph_value" where
  "out node_id index = Link node_id index"

text \<open>The first loop (lines 164 to 168): two nodes for every entry of \<^verbatim>\<open>PREPROCESSOR_OPTIONS\<close>.\<close>

fun fan_out ::
  "pyval \<Rightarrow> pyval \<Rightarrow> string list \<Rightarrow> graph \<Rightarrow> graph_value list \<Rightarrow> graph \<times> graph_value list" where
  "fan_out img resolution [] graph curr_outputs = (graph, curr_outputs)"
| "fan_out img resolution (preprocc # rest) graph curr_outputs =
     (case node graph ''AIO_Preprocessor''
             [(''preprocessor'', Literal (PyStr preprocc)), (''image'', Literal img),
              (''resolution'', Literal resolution)] of
        (graph1, preprocc_node) \<Rightarrow>
          (let hint_img = out preprocc_node 0
           in case node graph1 ''ControlNetAuxSimpleAddText''
                     [(''image'', hint_img), (''text'', Literal (PyStr preprocc))] of
                (graph2, add_text_node) \<Rightarrow>
                  fan_out img resolution rest graph2 (curr_outputs @ [out add_text_node 0])))"

text \<open>
  The inner loop (lines 172 to 177), \<^verbatim>\<open>for i in range(0, len(curr_outputs), 2)\<close>: the
  items at \<open>i\<close> and \<open>i + 1\<close> are the first two of what is left of the list; when there is
  no item at \<open>i + 1\<close> the last one is passed on as it is.
\<close>

fun merge_round ::
  "graph \<Rightarrow> graph_value list \<Rightarrow> graph_value list \<Rightarrow> graph \<times> graph_value list" where
  "merge_round graph [] outputs = (graph, outputs)"
| "merge_round graph [x] outputs = (graph, outputs @ [x])"
| "merge_round graph (x # y # rest) outputs =
     (case node graph ''ImageBatch'' [(''image1'', x), (''image2'', y)] of
        (graph', image_batch) \<Rightarrow> merge_round graph' rest (outputs @ [out image_batch 0]))"

text \<open>
  The loop \<^verbatim>\<open>while len(curr_outputs) > 1\<close>. The third argument is a history variable that
  the source does not have: the value of \<^verbatim>\<open>curr_outputs\<close> after each round, in order.
\<close>

function fan_in ::
  "graph \<Rightarrow> graph_value list \<Rightarrow> graph_value list list
     \<Rightarrow> graph \<times> graph_value list \<times> graph_value list list" where
  "fan_in graph curr_outputs rounds =
     (if length curr_outputs > 1 then
        (case merge_round graph curr_outputs [] of
           (graph', outputs') \<Rightarrow> fan_in graph' outputs' (rounds @ [outputs']))
      else (graph, curr_outputs, rounds))"
  by pat_completeness auto
termination
proof (relation "measure (\<lambda>(graph, curr_outputs, rounds). length curr_outputs)")
  show "wf (measure (\<lambda>(graph, curr_outputs, rounds). length curr_outputs))"
    by simp
next
  fix graph :: graph and curr_outputs :: "graph_value list"
    and rounds :: "graph_value list list" and graph' outputs'
  assume long: "1 < length curr_outputs"
    and pair: "(graph', outputs') = merge_round graph curr_outputs []"
  have len: "length (snd (merge_round g xs acc)) = length acc + (length xs + 1) div 2"
    for g xs acc
    by (induction g xs acc rule: merge_round.induct) (simp_all add: node_def)
  from pair have "outputs' = snd (merge_round graph curr_outputs [])"
    by (metis snd_conv)
  then have "length outputs' = (length curr_outputs + 1) div 2"
    by (simp add: len)
  with long have "length outputs' < length curr_outputs"
    by simp
  then show "((graph', outputs', rounds @ [outputs']), (graph, curr_outputs, rounds))
      \<in> measure (\<lambda>(graph, curr_outputs, rounds). length curr_outputs)"
    by simp
qed

declare fan_in.simps [simp del]

text \<open>
  Lines 162 to 178: a new builder, the first loop and then the reduction. The result is
  the finished builder, the last value of \<^verbatim>\<open>curr_outputs\<close> and the history of the rounds.
\<close>

definition build_graph ::
  "pyval \<Rightarrow> pyval \<Rightarrow> string list \<Rightarrow> graph \<times> graph_value list \<times> graph_value list list" where
  "build_graph img resolution options =
     (case fan_out img resolution options [] [] of
        (graph, curr_outputs) \<Rightarrow> fan_in graph curr_outputs [])"

record composed =
  result :: "graph_value list"
  expand :: graph

definition capability_missing :: string where
  "capability_missing =
     ''ExecuteAllControlNetPreprocessor requries [Execution Model Inversion](https://github.com/comfyanonymous/ComfyUI/commit/5cfe38). Update ComfyUI/SwarmUI to get this feature''"

text \<open>
  \<open>graph_utils\<close> says whether \<^verbatim>\<open>from comfy_execution.graph_utils import GraphBuilder\<close>
  succeeds on this host. \<^verbatim>\<open>curr_outputs[0]\<close> on an empty list raises \<^verbatim>\<open>IndexError\<close>.
  \<open>options\<close> is the module global \<^verbatim>\<open>PREPROCESSOR_OPTIONS\<close>.
\<close>

definition execute_all :: "bool \<Rightarrow> string list \<Rightarrow> pyval \<Rightarrow> pyval option \<Rightarrow> error + composed" where
  "execute_all graph_utils options img resolution_arg =
     (let resolution = (case resolution_arg of None \<Rightarrow> PyInt 512 | Some r \<Rightarrow> r)
      in if \<not> graph_utils then Inl (RuntimeError capability_missing)
         else case build_graph img resolution options of
                (graph, curr_outputs, rounds) \<Rightarrow>
                  (case curr_outputs of
                     [] \<Rightarrow> Inl IndexError
                   | x # _ \<Rightarrow> Inr \<lparr>result = [x], expand = graph\<rparr>))"

text \<open>The number of nodes of a class in a graph.\<close>

definition count_nodes :: "string \<Rightarrow> graph \<Rightarrow> nat" where
  "count_nodes cls graph = length (filter (\<lambda>n. class_type n = cls) graph)"

section \<open>How the loader sorts the candidates\<close>










section \<open>The binding rule of the spec\<close>

text \<open>
  The rule of the spec for one parameter, in its own order: a structural role takes the
  caller's value; else a declared default is used; else a numeric type name takes its zero
  value from the table; else the parameter stays unbound (\<open>None\<close>). The fourth step of the
  spec, the choice list, is left out here and is treated on its own further down.
\<close>

definition type_default :: "pyval \<Rightarrow> pyval option" where
  "type_default t = (case t of PyStr k \<Rightarrow> map_of default_values k | _ \<Rightarrow> None)"

definition spec_binding :: "pyval \<Rightarrow> pyval \<Rightarrow> string \<Rightarrow> input_type \<Rightarrow> pyval option" where
  "spec_binding img resolution name input_type =
     (if name = ''image'' then Some img
      else if name = ''resolution'' then Some resolution
      else case declared_default input_type of
             Some d \<Rightarrow> Some d
           | None \<Rightarrow> type_default (tag input_type))"

text \<open>
  A schema on which neither loop reaches a list or another unhashable value as the key
  of \<^verbatim>\<open>default_values\<close>: every parameter is structural, has a declared default, or has
  a hashable type tag (a type name).
\<close>

definition loop_safe :: "(string, input_type) dict \<Rightarrow> bool" where
  "loop_safe schema =
     list_all (\<lambda>(name, input_type).
        name = ''image'' \<or> name = ''resolution'' \<or> declared_default input_type \<noteq> None
        \<or> hashable (tag input_type)) schema"

section \<open>Properties of \<^verbatim>\<open>preprocessor_options\<close>\<close>

lemma remove_not_supported_keep_head:
  "x \<notin> set names \<Longrightarrow> remove_not_supported names (x # xs) = x # remove_not_supported names xs"
  by (induction names arbitrary: xs) auto

lemma remove1_distinct_filter:
  "distinct xs \<Longrightarrow> remove1 x xs = filter (\<lambda>k. k \<noteq> x) xs"
proof (induction xs)
  case Nil
  then show ?case by simp
next
  case (Cons y ys)
  show ?case
  proof (cases "x = y")
    case True
    with Cons.prems have "filter (\<lambda>k. k \<noteq> x) ys = ys"
      by (auto simp add: filter_id_conv)
    with True show ?thesis by simp
  next
    case False
    with Cons show ?thesis by auto
  qed
qed

lemma remove_not_supported_filter:
  "distinct xs \<Longrightarrow> remove_not_supported names xs = filter (\<lambda>k. k \<notin> set names) xs"
proof (induction names arbitrary: xs)
  case Nil
  then show ?case by simp
next
  case (Cons name names)
  let ?ys = "filter (\<lambda>k. k \<noteq> name) xs"
  have "(if name \<in> set xs then remove1 name xs else xs) = remove1 name xs"
    by (simp add: remove1_idem)
  then have step: "(if name \<in> set xs then remove1 name xs else xs) = ?ys"
    using Cons.prems by (simp only: remove1_distinct_filter)
  have "distinct ?ys"
    using Cons.prems by simp
  then have "remove_not_supported names ?ys = filter (\<lambda>k. k \<notin> set names) ?ys"
    by (rule Cons.IH)
  also have "\<dots> = filter (\<lambda>k. k \<notin> set (name # names)) xs"
    by (induction xs) auto
  finally show ?case
    using step by simp
qed

lemma none_not_excluded: "''none'' \<notin> set AIO_NOT_SUPPORTED"
  by (simp add: AIO_NOT_SUPPORTED_def)

lemma preprocessor_options_eq:
  assumes "distinct (dict_keys AUX_NODE_MAPPINGS)"
  shows "preprocessor_options AUX_NODE_MAPPINGS =
           ''none'' # filter (\<lambda>k. k \<notin> set AIO_NOT_SUPPORTED) (dict_keys AUX_NODE_MAPPINGS)"
  unfolding preprocessor_options_def
  using assms none_not_excluded
  by (simp add: remove_not_supported_keep_head remove_not_supported_filter)

text \<open>
  C7. For every registry (a dictionary, so its keys are distinct),
  \<^verbatim>\<open>preprocessor_options\<close> returns the sentinel \<^verbatim>\<open>"none"\<close> followed by the registered
  names that are not in the exclusion list, in registry order. The exclusion list is the
  constant \<^verbatim>\<open>AIO_NOT_SUPPORTED\<close>, the only one the function reads. The result is a
  function of the registry alone, so every call on the same registry gives the same list,
  and running the exclusion loop once more over the result changes nothing.
\<close>

theorem preprocessor_options_names:
  assumes "distinct (dict_keys AUX_NODE_MAPPINGS)"
  shows "preprocessor_options AUX_NODE_MAPPINGS =
           ''none'' # filter (\<lambda>k. k \<notin> set AIO_NOT_SUPPORTED) (dict_keys AUX_NODE_MAPPINGS)
         \<and> hd (preprocessor_options AUX_NODE_MAPPINGS) = ''none''
         \<and> set (tl (preprocessor_options AUX_NODE_MAPPINGS)) =
             set (dict_keys AUX_NODE_MAPPINGS) - set AIO_NOT_SUPPORTED
         \<and> remove_not_supported AIO_NOT_SUPPORTED (preprocessor_options AUX_NODE_MAPPINGS) =
             preprocessor_options AUX_NODE_MAPPINGS"
proof -
  let ?keys = "dict_keys AUX_NODE_MAPPINGS"
  let ?kept = "filter (\<lambda>k. k \<notin> set AIO_NOT_SUPPORTED) ?keys"
  have eq: "preprocessor_options AUX_NODE_MAPPINGS = ''none'' # ?kept"
    using assms by (rule preprocessor_options_eq)
  have "distinct ?kept"
    using assms by simp
  then have "remove_not_supported AIO_NOT_SUPPORTED ?kept =
      filter (\<lambda>k. k \<notin> set AIO_NOT_SUPPORTED) ?kept"
    by (rule remove_not_supported_filter)
  then have again: "remove_not_supported AIO_NOT_SUPPORTED (''none'' # ?kept) = ''none'' # ?kept"
    using none_not_excluded by (simp add: remove_not_supported_keep_head)
  have "set ?kept = set ?keys - set AIO_NOT_SUPPORTED"
    by auto
  with eq again show ?thesis
    by simp
qed

theorem preprocessor_options_names_witness:
  "distinct (dict_keys [(''CannyEdgePreprocessor'', ()), (''InpaintPreprocessor'', ())])
   \<and> preprocessor_options [(''CannyEdgePreprocessor'', ()), (''InpaintPreprocessor'', ())] =
       [''none'', ''CannyEdgePreprocessor'']"
proof -
  let ?reg = "[(''CannyEdgePreprocessor'', ()), (''InpaintPreprocessor'', ())]"
  have d: "distinct (dict_keys ?reg)"
    by (simp add: dict_keys_def)
  have "preprocessor_options ?reg =
          ''none'' # filter (\<lambda>k. k \<notin> set AIO_NOT_SUPPORTED) (dict_keys ?reg)"
    using preprocessor_options_names [OF d] by (rule conjunct1)
  also have "\<dots> = [''none'', ''CannyEdgePreprocessor'']"
    by (simp add: dict_keys_def AIO_NOT_SUPPORTED_def)
  finally show ?thesis
    using d by (intro conjI)
qed

section \<open>Properties of \<^verbatim>\<open>AIO_Preprocessor.execute\<close>\<close>

text \<open>
  C10. With \<^verbatim>\<open>preprocessor == "none"\<close> the dispatch returns the one-element tuple of the
  input image, whatever the image, the resolution and the registry are: the result does
  not depend on the registry, on any schema or on any unit, none of which is reached.
\<close>

theorem AIO_execute_none:
  "AIO_execute AUX_NODE_MAPPINGS ''none'' img resolution_arg = Inr (Plain [img])"
  by (simp add: AIO_execute_def)

theorem AIO_execute_none_witness:
  "AIO_execute [] ''none'' (PyObj 0) (Some (PyInt 512)) = Inr (Plain [PyObj 0])"
  by (rule AIO_execute_none)

section \<open>Properties of \<^verbatim>\<open>ExecuteAllControlNetPreprocessors.execute\<close>\<close>

text \<open>
  C9. On a host without \<^verbatim>\<open>comfy_execution.graph_utils\<close> the composer raises the
  \<^verbatim>\<open>RuntimeError\<close> that names the missing capability; it returns no graph and nothing
  else is attempted. On a host that has it, that error is never the outcome, whatever the
  options, the image and the resolution are.
\<close>

theorem execute_all_capability:
  "execute_all False options img resolution_arg = Inl (RuntimeError capability_missing)
   \<and> execute_all True options img resolution_arg \<noteq> Inl (RuntimeError message)"
  by (simp add: execute_all_def Let_def split: prod.splits list.splits)

theorem execute_all_capability_witness:
  "execute_all False [''none''] (PyObj 0) None = Inl (RuntimeError capability_missing)
   \<and> execute_all True [''none''] (PyObj 0) None \<noteq> Inl (RuntimeError capability_missing)"
  by (rule execute_all_capability)

text \<open>
  C8 (as amended). Over a registry of 0 units the list of options is the sentinel alone.
  The composer neither fails nor returns an empty graph or the input image: it returns a
  graph of exactly two nodes, the dispatch node for \<^verbatim>\<open>"none"\<close> and the label overlay on
  its output, and the result is the output of the overlay. No merge node is built.
\<close>

theorem execute_all_empty_registry:
  "PREPROCESSOR_OPTIONS ([] :: (string, unit_class) dict) = [''none'']
   \<and> execute_all True (PREPROCESSOR_OPTIONS ([] :: (string, unit_class) dict)) img resolution_arg =
       Inr \<lparr>result = [Link 1 0],
            expand =
              [\<lparr>class_type = ''AIO_Preprocessor'',
                inputs = [(''preprocessor'', Literal (PyStr ''none'')), (''image'', Literal img),
                          (''resolution'',
                           Literal (case resolution_arg of None \<Rightarrow> PyInt 512 | Some r \<Rightarrow> r))]\<rparr>,
               \<lparr>class_type = ''ControlNetAuxSimpleAddText'',
                inputs = [(''image'', Link 0 0), (''text'', Literal (PyStr ''none''))]\<rparr>]\<rparr>"
proof -
  have options: "PREPROCESSOR_OPTIONS ([] :: (string, unit_class) dict) = [''none'']"
    by (simp add: PREPROCESSOR_OPTIONS_def preprocessor_options_def dict_keys_def
        AIO_NOT_SUPPORTED_def)
  show ?thesis
    unfolding options
    by (simp add: execute_all_def build_graph_def node_def out_def fan_in.simps)
qed

theorem execute_all_empty_registry_witness:
  "execute_all True (PREPROCESSOR_OPTIONS ([] :: (string, unit_class) dict)) (PyObj 7) None =
     Inr \<lparr>result = [Link 1 0],
          expand =
            [\<lparr>class_type = ''AIO_Preprocessor'',
              inputs = [(''preprocessor'', Literal (PyStr ''none'')), (''image'', Literal (PyObj 7)),
                        (''resolution'', Literal (PyInt 512))]\<rparr>,
             \<lparr>class_type = ''ControlNetAuxSimpleAddText'',
              inputs = [(''image'', Link 0 0), (''text'', Literal (PyStr ''none''))]\<rparr>]\<rparr>"
  using execute_all_empty_registry [of "PyObj 7" None, THEN conjunct2] by simp

text \<open>
  C8 as stated fails: at the empty registry the composer does not fail, the graph it
  returns is not empty, and its result is not the input image.
\<close>

theorem execute_all_empty_registry_not_identity:
  "execute_all True (PREPROCESSOR_OPTIONS ([] :: (string, unit_class) dict)) (PyObj 7) None \<noteq>
     Inl IndexError
   \<and> map_sum id (\<lambda>c. length (expand c)) 
        (execute_all True (PREPROCESSOR_OPTIONS ([] :: (string, unit_class) dict)) (PyObj 7) None) =
       Inr 2
   \<and> map_sum id result
        (execute_all True (PREPROCESSOR_OPTIONS ([] :: (string, unit_class) dict)) (PyObj 7) None) \<noteq>
       Inr [Literal (PyObj 7)]"
proof -
  have options: "PREPROCESSOR_OPTIONS ([] :: (string, unit_class) dict) = [''none'']"
    by (simp add: PREPROCESSOR_OPTIONS_def preprocessor_options_def dict_keys_def
        AIO_NOT_SUPPORTED_def)
  show ?thesis
    unfolding options
    by (simp add: execute_all_def build_graph_def node_def out_def fan_in.simps)
qed

text \<open>
  C3 (as amended). Over a registry of exactly 5 units, none of them excluded, the list
  of options has 6 entries, the sentinel \<^verbatim>\<open>"none"\<close> and the 5 names. The composer builds
  6 dispatch nodes and 6 label overlays, and the reduction takes exactly 3 rounds, the
  sequence going from 6 outputs to 3, to 2 and to 1, with 5 merge nodes in all; the one
  output left is the result.
\<close>

theorem execute_all_five_units:
  assumes "distinct (dict_keys AUX_NODE_MAPPINGS)"
    and "length AUX_NODE_MAPPINGS = 5"
    and "set (dict_keys AUX_NODE_MAPPINGS) \<inter> set AIO_NOT_SUPPORTED = {}"
  shows "\<exists>graph final rounds.
           length (PREPROCESSOR_OPTIONS AUX_NODE_MAPPINGS) = 6
         \<and> length (snd (fan_out img resolution (PREPROCESSOR_OPTIONS AUX_NODE_MAPPINGS) [] [])) = 6
         \<and> build_graph img resolution (PREPROCESSOR_OPTIONS AUX_NODE_MAPPINGS) =
             (graph, [final], rounds)
         \<and> map length rounds = [3, 2, 1]
         \<and> count_nodes ''AIO_Preprocessor'' graph = 6
         \<and> count_nodes ''ControlNetAuxSimpleAddText'' graph = 6
         \<and> count_nodes ''ImageBatch'' graph = 5
         \<and> length graph = 17
         \<and> execute_all True (PREPROCESSOR_OPTIONS AUX_NODE_MAPPINGS) img (Some resolution) =
             Inr \<lparr>result = [final], expand = graph\<rparr>"
proof -
  from assms(2) have "length (dict_keys AUX_NODE_MAPPINGS) = 5"
    by (simp add: dict_keys_def)
  then obtain a b c d e where keys: "dict_keys AUX_NODE_MAPPINGS = [a, b, c, d, e]"
    by (auto simp: length_Suc_conv eval_nat_numeral)
  have "filter (\<lambda>k. k \<notin> set AIO_NOT_SUPPORTED) (dict_keys AUX_NODE_MAPPINGS) =
          dict_keys AUX_NODE_MAPPINGS"
    using assms(3) by (auto simp: filter_id_conv)
  then have options: "PREPROCESSOR_OPTIONS AUX_NODE_MAPPINGS = [''none'', a, b, c, d, e]"
    unfolding PREPROCESSOR_OPTIONS_def
    using preprocessor_options_eq [OF assms(1)] keys by simp
  show ?thesis
    unfolding options
    by (simp add: execute_all_def build_graph_def node_def out_def fan_in.simps count_nodes_def)
qed


theorem execute_all_five_units_witness:
  "distinct (dict_keys [(''CannyEdgePreprocessor'', ()), (''LineArtPreprocessor'', ()),
      (''MiDaS-DepthMapPreprocessor'', ()), (''OpenposePreprocessor'', ()),
      (''TilePreprocessor'', ())])
   \<and> length [(''CannyEdgePreprocessor'', ()), (''LineArtPreprocessor'', ()),
      (''MiDaS-DepthMapPreprocessor'', ()), (''OpenposePreprocessor'', ()),
      (''TilePreprocessor'', ())] = 5
   \<and> set (dict_keys [(''CannyEdgePreprocessor'', ()), (''LineArtPreprocessor'', ()),
      (''MiDaS-DepthMapPreprocessor'', ()), (''OpenposePreprocessor'', ()),
      (''TilePreprocessor'', ())]) \<inter> set AIO_NOT_SUPPORTED = {}
   \<and> length (PREPROCESSOR_OPTIONS [(''CannyEdgePreprocessor'', ()), (''LineArtPreprocessor'', ()),
      (''MiDaS-DepthMapPreprocessor'', ()), (''OpenposePreprocessor'', ()),
      (''TilePreprocessor'', ())]) = 6
   \<and> map_sum id (\<lambda>c. (length (result c), count_nodes ''ControlNetAuxSimpleAddText'' (expand c)))
        (execute_all True (PREPROCESSOR_OPTIONS [(''CannyEdgePreprocessor'', ()), (''LineArtPreprocessor'', ()),
      (''MiDaS-DepthMapPreprocessor'', ()), (''OpenposePreprocessor'', ()),
      (''TilePreprocessor'', ())]) (PyObj 7) (Some (PyInt 512))) = Inr (1, 6)"
proof -
  let ?reg = "[(''CannyEdgePreprocessor'', ()), (''LineArtPreprocessor'', ()),
      (''MiDaS-DepthMapPreprocessor'', ()), (''OpenposePreprocessor'', ()),
      (''TilePreprocessor'', ())]"
  have d: "distinct (dict_keys ?reg)"
    by (simp add: dict_keys_def)
  have l: "length ?reg = 5"
    by simp
  have x: "set (dict_keys ?reg) \<inter> set AIO_NOT_SUPPORTED = {}"
    by (simp add: dict_keys_def AIO_NOT_SUPPORTED_def)
  from execute_all_five_units [OF d l x, of "PyObj 7" "PyInt 512"]
  obtain graph final where
    "length (PREPROCESSOR_OPTIONS ?reg) = 6"
    "count_nodes ''ControlNetAuxSimpleAddText'' graph = 6"
    "execute_all True (PREPROCESSOR_OPTIONS ?reg) (PyObj 7) (Some (PyInt 512)) =
       Inr \<lparr>result = [final], expand = graph\<rparr>"
    by blast
  with d l x show ?thesis
    by simp
qed

text \<open>
  C3 as stated fails: at a registry of 5 units the first loop leaves 6 outputs, not 5,
  the graph has 6 label overlays, and the rounds go from 6 outputs to 3, 2 and 1.
\<close>

theorem execute_all_five_units_six_labels:
  "length (snd (fan_out (PyObj 7) (PyInt 512) (PREPROCESSOR_OPTIONS [(''CannyEdgePreprocessor'', ()), (''LineArtPreprocessor'', ()),
      (''MiDaS-DepthMapPreprocessor'', ()), (''OpenposePreprocessor'', ()),
      (''TilePreprocessor'', ())]) [] [])) \<noteq> 5
   \<and> length (snd (fan_out (PyObj 7) (PyInt 512) (PREPROCESSOR_OPTIONS [(''CannyEdgePreprocessor'', ()), (''LineArtPreprocessor'', ()),
      (''MiDaS-DepthMapPreprocessor'', ()), (''OpenposePreprocessor'', ()),
      (''TilePreprocessor'', ())]) [] [])) = 6
   \<and> count_nodes ''ControlNetAuxSimpleAddText''
        (fst (build_graph (PyObj 7) (PyInt 512) (PREPROCESSOR_OPTIONS [(''CannyEdgePreprocessor'', ()), (''LineArtPreprocessor'', ()),
      (''MiDaS-DepthMapPreprocessor'', ()), (''OpenposePreprocessor'', ()),
      (''TilePreprocessor'', ())]))) = 6
   \<and> map length (snd (snd (build_graph (PyObj 7) (PyInt 512) (PREPROCESSOR_OPTIONS [(''CannyEdgePreprocessor'', ()), (''LineArtPreprocessor'', ()),
      (''MiDaS-DepthMapPreprocessor'', ()), (''OpenposePreprocessor'', ()),
      (''TilePreprocessor'', ())])))) =
       [3, 2, 1]"
proof -
  have options: "PREPROCESSOR_OPTIONS [(''CannyEdgePreprocessor'', ()), (''LineArtPreprocessor'', ()),
      (''MiDaS-DepthMapPreprocessor'', ()), (''OpenposePreprocessor'', ()),
      (''TilePreprocessor'', ())] =
      [''none'', ''CannyEdgePreprocessor'', ''LineArtPreprocessor'',
       ''MiDaS-DepthMapPreprocessor'', ''OpenposePreprocessor'', ''TilePreprocessor'']"
    by (simp add: PREPROCESSOR_OPTIONS_def preprocessor_options_def dict_keys_def
        AIO_NOT_SUPPORTED_def)
  show ?thesis
    unfolding options
    by (simp add: build_graph_def node_def out_def fan_in.simps count_nodes_def)
qed

section \<open>Properties of \<^verbatim>\<open>load_nodes\<close>\<close>














section \<open>Properties of the argument loops\<close>

lemma dict_update_distinct:
  "distinct (map fst d) \<Longrightarrow> distinct (map fst (dict_update d other))"
  unfolding dict_update_def
proof (induction other arbitrary: d)
  case Nil
  then show ?case by simp
next
  case (Cons p other)
  obtain k v where "p = (k, v)"
    by (cases p)
  with Cons show ?case
    by (simp add: distinct_update)
qed

lemma merged_input_types_distinct:
  "merged_input_types aux_class = Inr schema \<Longrightarrow> distinct (map fst schema)"
  by (auto simp: merged_input_types_def Let_def dict_update_distinct split: option.splits)

lemma aio_choices_Inr:
  "\<not> hashable t0 \<Longrightarrow> aio_choices t0 choices name params = Inr params' \<Longrightarrow> params' = params"
  by (induction choices) (auto simp: dict_getitem_def split: sum.splits if_splits)

lemma bind_type_default_result:
  "bind_type_default t name params = Inr params' \<Longrightarrow>
     map_of params' =
       (case type_default t of Some v \<Rightarrow> (map_of params)(name \<mapsto> v) | None \<Rightarrow> map_of params)"
  by (cases t)
    (auto simp: bind_type_default_def dict_contains_def dict_getitem_def type_default_def
      update_conv' split: if_splits option.splits)

lemma bind_type_default_total:
  "hashable t \<Longrightarrow> \<exists>params'. bind_type_default t name params = Inr params'"
  by (cases t)
    (auto simp: bind_type_default_def dict_contains_def dict_getitem_def split: option.splits)

lemma aio_bind_result:
  assumes "aio_bind img resolution params name input_type = Inr params'"
  shows "map_of params' =
           (case spec_binding img resolution name input_type of
              Some v \<Rightarrow> (map_of params)(name \<mapsto> v)
            | None \<Rightarrow> map_of params)"
proof (cases "name = ''image'' \<or> name = ''resolution'' \<or> declared_default input_type \<noteq> None")
  case True
  with assms show ?thesis
    by (auto simp: aio_bind_def spec_binding_def update_conv' split: if_splits)
next
  case False
  then have spec: "spec_binding img resolution name input_type = type_default (tag input_type)"
    by (auto simp: spec_binding_def)
  show ?thesis
  proof (cases "\<exists>choices. tag input_type = PyList choices")
    case True
    then obtain choices where choices: "tag input_type = PyList choices"
      by blast
    with assms False have "aio_choices (PyList choices) choices name params = Inr params'"
      by (auto simp: aio_bind_def)
    then have "params' = params"
      by (rule aio_choices_Inr [rotated]) simp
    with spec choices show ?thesis
      by (simp add: type_default_def)
  next
    case no_list: False
    with assms False have "bind_type_default (tag input_type) name params = Inr params'"
      by (cases "tag input_type") (auto simp: aio_bind_def)
    with spec show ?thesis
      by (simp add: bind_type_default_result)
  qed
qed

lemma selector_bind_result:
  assumes "selector_bind img resolution params name input_type = Inr params'"
  shows "map_of params' =
           (case spec_binding img resolution name input_type of
              Some v \<Rightarrow> (map_of params)(name \<mapsto> v)
            | None \<Rightarrow> map_of params)"
proof (cases "name = ''image'' \<or> name = ''resolution'' \<or> declared_default input_type \<noteq> None")
  case True
  with assms show ?thesis
    by (auto simp: selector_bind_def spec_binding_def update_conv' split: if_splits)
next
  case False
  then have spec: "spec_binding img resolution name input_type = type_default (tag input_type)"
    by (auto simp: spec_binding_def)
  from assms False have "bind_type_default (tag input_type) name params = Inr params'"
    by (auto simp: selector_bind_def)
  with spec show ?thesis
    by (simp add: bind_type_default_result)
qed

lemma aio_bind_total:
  assumes "name = ''image'' \<or> name = ''resolution'' \<or> declared_default input_type \<noteq> None
           \<or> hashable (tag input_type)"
  shows "\<exists>params'. aio_bind img resolution params name input_type = Inr params'"
proof (cases "name = ''image'' \<or> name = ''resolution'' \<or> declared_default input_type \<noteq> None")
  case True
  then show ?thesis
    by (auto simp: aio_bind_def)
next
  case False
  with assms have h: "hashable (tag input_type)"
    by blast
  then obtain params' where "bind_type_default (tag input_type) name params = Inr params'"
    using bind_type_default_total by blast
  with False h show ?thesis
    by (cases "tag input_type") (auto simp: aio_bind_def)
qed

lemma selector_bind_total:
  assumes "name = ''image'' \<or> name = ''resolution'' \<or> declared_default input_type \<noteq> None
           \<or> hashable (tag input_type)"
  shows "\<exists>params'. selector_bind img resolution params name input_type = Inr params'"
proof (cases "name = ''image'' \<or> name = ''resolution'' \<or> declared_default input_type \<noteq> None")
  case True
  then show ?thesis
    by (auto simp: selector_bind_def)
next
  case False
  with assms have "hashable (tag input_type)"
    by blast
  then obtain params' where "bind_type_default (tag input_type) name params = Inr params'"
    using bind_type_default_total by blast
  with False show ?thesis
    by (auto simp: selector_bind_def)
qed

lemma aio_params_total:
  "loop_safe schema \<Longrightarrow> \<exists>params. aio_params img resolution params0 schema = Inr params"
proof (induction schema arbitrary: params0)
  case Nil
  then show ?case by simp
next
  case (Cons entry rest)
  obtain name input_type where entry: "entry = (name, input_type)"
    by (cases entry)
  from Cons.prems entry obtain params1 where
    "aio_bind img resolution params0 name input_type = Inr params1"
    using aio_bind_total [of name input_type img resolution params0]
    by (auto simp: loop_safe_def)
  moreover from Cons.prems have "loop_safe rest"
    by (simp add: loop_safe_def)
  ultimately show ?case
    using Cons.IH [of params1] entry by simp
qed

lemma selector_params_total:
  "loop_safe schema \<Longrightarrow> \<exists>params. selector_params img resolution params0 schema = Inr params"
proof (induction schema arbitrary: params0)
  case Nil
  then show ?case by simp
next
  case (Cons entry rest)
  obtain name input_type where entry: "entry = (name, input_type)"
    by (cases entry)
  from Cons.prems entry obtain params1 where
    "selector_bind img resolution params0 name input_type = Inr params1"
    using selector_bind_total [of name input_type img resolution params0]
    by (auto simp: loop_safe_def)
  moreover from Cons.prems have "loop_safe rest"
    by (simp add: loop_safe_def)
  ultimately show ?case
    using Cons.IH [of params1] entry by simp
qed

lemma aio_params_result:
  assumes "distinct (map fst schema)"
    and "aio_params img resolution params0 schema = Inr params"
  shows "map_of params name =
           (case Option.bind (map_of schema name) (spec_binding img resolution name) of
              Some v \<Rightarrow> Some v
            | None \<Rightarrow> map_of params0 name)"
  using assms
proof (induction schema arbitrary: params0)
  case Nil
  then show ?case by simp
next
  case (Cons entry rest)
  obtain n input_type where entry: "entry = (n, input_type)"
    by (cases entry)
  from Cons.prems(2) entry obtain params1 where
    first: "aio_bind img resolution params0 n input_type = Inr params1"
    and others: "aio_params img resolution params1 rest = Inr params"
    by (auto split: sum.splits)
  from Cons.prems(1) entry have fresh: "map_of rest n = None" and d: "distinct (map fst rest)"
    by (auto simp: map_of_eq_None_iff)
  note ih = Cons.IH [OF d others]
  note step = aio_bind_result [OF first]
  show ?case
  proof (cases "name = n")
    case True
    with ih fresh step entry show ?thesis
      by (simp split: option.splits)
  next
    case False
    with ih step entry show ?thesis
      by (simp split: option.splits)
  qed
qed

lemma selector_params_result:
  assumes "distinct (map fst schema)"
    and "selector_params img resolution params0 schema = Inr params"
  shows "map_of params name =
           (case Option.bind (map_of schema name) (spec_binding img resolution name) of
              Some v \<Rightarrow> Some v
            | None \<Rightarrow> map_of params0 name)"
  using assms
proof (induction schema arbitrary: params0)
  case Nil
  then show ?case by simp
next
  case (Cons entry rest)
  obtain n input_type where entry: "entry = (n, input_type)"
    by (cases entry)
  from Cons.prems(2) entry obtain params1 where
    first: "selector_bind img resolution params0 n input_type = Inr params1"
    and others: "selector_params img resolution params1 rest = Inr params"
    by (auto split: sum.splits)
  from Cons.prems(1) entry have fresh: "map_of rest n = None" and d: "distinct (map fst rest)"
    by (auto simp: map_of_eq_None_iff)
  note ih = Cons.IH [OF d others]
  note step = selector_bind_result [OF first]
  show ?case
  proof (cases "name = n")
    case True
    with ih fresh step entry show ?thesis
      by (simp split: option.splits)
  next
    case False
    with ih step entry show ?thesis
      by (simp split: option.splits)
  qed
qed

text \<open>
  For the merged schema of any unit, in both adapters: whenever the loop returns an
  argument set, a parameter named \<^verbatim>\<open>image\<close> is bound to the caller's image and a
  parameter named \<^verbatim>\<open>resolution\<close> to the caller's resolution, whatever default the schema
  declares for them, and every other parameter with a declared default is bound to that
  default. The loop does return on every schema whose parameters are each structural,
  declared with a default, or tagged with a hashable type tag.
\<close>

lemma loops_bind_structural:
  assumes "merged_input_types aux_class = Inr schema"
  shows "(loop_safe schema \<longrightarrow>
            (\<exists>params. aio_params img resolution [] schema = Inr params)
          \<and> (\<exists>params. selector_params img resolution [] schema = Inr params))
       \<and> (\<forall>params.
            aio_params img resolution [] schema = Inr params
            \<or> selector_params img resolution [] schema = Inr params \<longrightarrow>
              (map_of schema ''image'' \<noteq> None \<longrightarrow> map_of params ''image'' = Some img)
            \<and> (map_of schema ''resolution'' \<noteq> None \<longrightarrow>
                 map_of params ''resolution'' = Some resolution)
            \<and> (\<forall>name input_type d.
                 map_of schema name = Some input_type \<and> name \<noteq> ''image''
                 \<and> name \<noteq> ''resolution'' \<and> declared_default input_type = Some d \<longrightarrow>
                   map_of params name = Some d))"
proof -
  from assms have d: "distinct (map fst schema)"
    by (rule merged_input_types_distinct)
  have bound: "map_of params name = Option.bind (map_of schema name) (spec_binding img resolution name)"
    if "aio_params img resolution [] schema = Inr params
        \<or> selector_params img resolution [] schema = Inr params" for params name
    using that aio_params_result [OF d, of img resolution "[]" params name]
      selector_params_result [OF d, of img resolution "[]" params name]
    by (auto split: option.splits)
  have "map_of params ''image'' = Some img"
    if "aio_params img resolution [] schema = Inr params
        \<or> selector_params img resolution [] schema = Inr params"
      and "map_of schema ''image'' \<noteq> None" for params
    using bound [OF that(1), of "''image''"] that(2) by (auto simp: spec_binding_def)
  moreover have "map_of params ''resolution'' = Some resolution"
    if "aio_params img resolution [] schema = Inr params
        \<or> selector_params img resolution [] schema = Inr params"
      and "map_of schema ''resolution'' \<noteq> None" for params
    using bound [OF that(1), of "''resolution''"] that(2) by (auto simp: spec_binding_def)
  moreover have "map_of params name = Some d"
    if "aio_params img resolution [] schema = Inr params
        \<or> selector_params img resolution [] schema = Inr params"
      and "map_of schema name = Some input_type" "name \<noteq> ''image''" "name \<noteq> ''resolution''"
      and "declared_default input_type = Some d" for params name input_type d
    using bound [OF that(1), of name] that(2-) by (simp add: spec_binding_def)
  moreover have "\<exists>params. aio_params img resolution [] schema = Inr params" if "loop_safe schema"
    using that by (rule aio_params_total)
  moreover have "\<exists>params. selector_params img resolution [] schema = Inr params"
    if "loop_safe schema"
    using that by (rule selector_params_total)
  ultimately show ?thesis
    by blast
qed

text \<open>
  C1, evaluated on the code. The schema has \<^verbatim>\<open>image\<close>, \<^verbatim>\<open>resolution\<close> with the
  declared default 512 and a choice list \<^verbatim>\<open>mode\<close> without a default, none of whose
  options is a key of the table. The loop of \<^verbatim>\<open>AIO_Preprocessor.execute\<close> returns with
  \<^verbatim>\<open>image\<close> and \<^verbatim>\<open>resolution\<close> bound to the caller's values. The loop of
  \<^verbatim>\<open>get_preprocessor\<close> has no branch for a list: it asks whether the list is a key of
  the table and raises \<^verbatim>\<open>TypeError\<close>, so no argument set results and neither parameter
  is bound. With a choice list that holds \<^verbatim>\<open>"INT"\<close> in front, the loop of
  \<^verbatim>\<open>AIO_Preprocessor.execute\<close> raises as well, before it reaches \<^verbatim>\<open>image\<close>.
\<close>

theorem structural_binding_lost:
  "aio_params (PyObj 7) (PyInt 512) [] [(''image'', InputType (PyStr ''IMAGE'') None),
      (''resolution'', InputType (PyStr ''INT'') (Some [(''default'', PyInt 512), (''min'', PyInt 64)])),
      (''mode'', InputType (PyList [PyStr ''fast'', PyStr ''slow'']) None)] =
     Inr [(''image'', PyObj 7), (''resolution'', PyInt 512)]
   \<and> selector_params (PyObj 7) (PyInt 512) [] [(''image'', InputType (PyStr ''IMAGE'') None),
      (''resolution'', InputType (PyStr ''INT'') (Some [(''default'', PyInt 512), (''min'', PyInt 64)])),
      (''mode'', InputType (PyList [PyStr ''fast'', PyStr ''slow'']) None)] = Inl TypeError
   \<and> get_preprocessor (\<lambda>cn. Inr (PyObj 9)) [(''ModeUnit'', \<lparr>INPUT_TYPES = [(''required'', [(''image'', InputType (PyStr ''IMAGE'') None),
      (''resolution'', InputType (PyStr ''INT'') (Some [(''default'', PyInt 512), (''min'', PyInt 64)])),
      (''mode'', InputType (PyList [PyStr ''fast'', PyStr ''slow'']) None)])],
      FUNCTION = ''execute'',
      methods =
        [(''execute'',
          \<lparr>parameters =
              [\<lparr>param_name = ''self'', param_kind = PositionalOrKeyword, has_default = False\<rparr>,
               \<lparr>param_name = ''image'', param_kind = PositionalOrKeyword, has_default = False\<rparr>,
               \<lparr>param_name = ''resolution'', param_kind = PositionalOrKeyword, has_default = True\<rparr>,
               \<lparr>param_name = ''mode'', param_kind = PositionalOrKeyword, has_default = True\<rparr>],
            var_positional = False, var_keyword = False, binds_instance = True,
            body = (\<lambda>params. Inr (Plain [PyObj 1]))\<rparr>)]\<rparr>)] ''control.safetensors''
        (PyObj 7) (Some (PyInt 512)) (Some [(''5'', [(''select_styles'', PyStr ''ModeUnit'')])]) (Some ''5'') = Inl TypeError
   \<and> aio_params (PyObj 7) (PyInt 512) [] [(''dtype'', InputType (PyList [PyStr ''INT'', PyStr ''FLOAT'']) None),
      (''image'', InputType (PyStr ''IMAGE'') None),
      (''resolution'', InputType (PyStr ''INT'') (Some [(''default'', PyInt 512), (''min'', PyInt 64)]))] = Inl TypeError"
proof -
  have merged: "merged_input_types \<lparr>INPUT_TYPES = [(''required'', [(''image'', InputType (PyStr ''IMAGE'') None),
      (''resolution'', InputType (PyStr ''INT'') (Some [(''default'', PyInt 512), (''min'', PyInt 64)])),
      (''mode'', InputType (PyList [PyStr ''fast'', PyStr ''slow'']) None)])],
      FUNCTION = ''execute'',
      methods =
        [(''execute'',
          \<lparr>parameters =
              [\<lparr>param_name = ''self'', param_kind = PositionalOrKeyword, has_default = False\<rparr>,
               \<lparr>param_name = ''image'', param_kind = PositionalOrKeyword, has_default = False\<rparr>,
               \<lparr>param_name = ''resolution'', param_kind = PositionalOrKeyword, has_default = True\<rparr>,
               \<lparr>param_name = ''mode'', param_kind = PositionalOrKeyword, has_default = True\<rparr>],
            var_positional = False, var_keyword = False, binds_instance = True,
            body = (\<lambda>params. Inr (Plain [PyObj 1]))\<rparr>)]\<rparr> = Inr [(''image'', InputType (PyStr ''IMAGE'') None),
      (''resolution'', InputType (PyStr ''INT'') (Some [(''default'', PyInt 512), (''min'', PyInt 64)])),
      (''mode'', InputType (PyList [PyStr ''fast'', PyStr ''slow'']) None)]"
    by (simp add: merged_input_types_def dict_update_def)
  have a: "aio_params (PyObj 7) (PyInt 512) [] [(''image'', InputType (PyStr ''IMAGE'') None),
      (''resolution'', InputType (PyStr ''INT'') (Some [(''default'', PyInt 512), (''min'', PyInt 64)])),
      (''mode'', InputType (PyList [PyStr ''fast'', PyStr ''slow'']) None)] =
      Inr [(''image'', PyObj 7), (''resolution'', PyInt 512)]"
    by (simp add: aio_bind_def declared_default_def dict_contains_def default_values_def)
  have s: "selector_params (PyObj 7) (PyInt 512) [] [(''image'', InputType (PyStr ''IMAGE'') None),
      (''resolution'', InputType (PyStr ''INT'') (Some [(''default'', PyInt 512), (''min'', PyInt 64)])),
      (''mode'', InputType (PyList [PyStr ''fast'', PyStr ''slow'']) None)] = Inl TypeError"
    by (simp add: selector_bind_def declared_default_def bind_type_default_def dict_contains_def)
  have "select_styles (Some [(''5'', [(''select_styles'', PyStr ''ModeUnit'')])]) (Some ''5'') = Inr (PyStr ''ModeUnit'')"
    by (simp add: select_styles_def)
  with merged s have g: "get_preprocessor (\<lambda>cn. Inr (PyObj 9)) [(''ModeUnit'', \<lparr>INPUT_TYPES = [(''required'', [(''image'', InputType (PyStr ''IMAGE'') None),
      (''resolution'', InputType (PyStr ''INT'') (Some [(''default'', PyInt 512), (''min'', PyInt 64)])),
      (''mode'', InputType (PyList [PyStr ''fast'', PyStr ''slow'']) None)])],
      FUNCTION = ''execute'',
      methods =
        [(''execute'',
          \<lparr>parameters =
              [\<lparr>param_name = ''self'', param_kind = PositionalOrKeyword, has_default = False\<rparr>,
               \<lparr>param_name = ''image'', param_kind = PositionalOrKeyword, has_default = False\<rparr>,
               \<lparr>param_name = ''resolution'', param_kind = PositionalOrKeyword, has_default = True\<rparr>,
               \<lparr>param_name = ''mode'', param_kind = PositionalOrKeyword, has_default = True\<rparr>],
            var_positional = False, var_keyword = False, binds_instance = True,
            body = (\<lambda>params. Inr (Plain [PyObj 1]))\<rparr>)]\<rparr>)]
      ''control.safetensors'' (PyObj 7) (Some (PyInt 512)) (Some [(''5'', [(''select_styles'', PyStr ''ModeUnit'')])]) (Some ''5'') = Inl TypeError"
    by (simp add: get_preprocessor_def dict_getitem_def)
  have b: "aio_params (PyObj 7) (PyInt 512) [] [(''dtype'', InputType (PyList [PyStr ''INT'', PyStr ''FLOAT'']) None),
      (''image'', InputType (PyStr ''IMAGE'') None),
      (''resolution'', InputType (PyStr ''INT'') (Some [(''default'', PyInt 512), (''min'', PyInt 64)]))] = Inl TypeError"
    by (simp add: aio_bind_def declared_default_def dict_contains_def dict_getitem_def
        default_values_def)
  from a s g b show ?thesis
    by (intro conjI)
qed

section \<open>The choice list without a default\<close>

lemma aio_choices_raises:
  assumes "\<not> hashable t0"
    and "\<exists>v \<in> set choices. dict_contains default_values v \<noteq> Inr False"
  shows "aio_choices t0 choices name params = Inl TypeError"
  using assms(2)
proof (induction choices)
  case Nil
  then show ?case by simp
next
  case (Cons v rest)
  show ?case
  proof (cases "dict_contains default_values v")
    case (Inl e)
    then have "e = TypeError"
      by (auto simp: dict_contains_def split: if_splits pyval.splits)
    with Inl show ?thesis by simp
  next
    case (Inr found)
    show ?thesis
    proof (cases found)
      case True
      with Inr assms(1) show ?thesis
        by (simp add: dict_getitem_def)
    next
      case False
      with Inr Cons show ?thesis
        by simp
    qed
  qed
qed

text \<open>
  On every parameter that reaches the last step with a choice list one of whose options
  is a key of the table, both loops raise \<^verbatim>\<open>TypeError\<close>.
\<close>

lemma choice_list_bind_raises:
  assumes "name \<noteq> ''image''" and "name \<noteq> ''resolution''"
    and "declared_default input_type = None"
    and "tag input_type = PyList choices"
    and "PyStr k \<in> set choices" and "map_of default_values k \<noteq> None"
  shows "aio_bind img resolution params name input_type = Inl TypeError"
    and "selector_bind img resolution params name input_type = Inl TypeError"
proof -
  from assms(6) have "dict_contains default_values (PyStr k) \<noteq> Inr False"
    by (simp add: dict_contains_def)
  with assms(5) have "\<exists>v \<in> set choices. dict_contains default_values v \<noteq> Inr False"
    by blast
  then have "aio_choices (PyList choices) choices name params = Inl TypeError"
    by (rule aio_choices_raises [rotated]) simp
  with assms(1-4) show "aio_bind img resolution params name input_type = Inl TypeError"
    by (simp add: aio_bind_def)
  from assms(1-4) show "selector_bind img resolution params name input_type = Inl TypeError"
    by (simp add: selector_bind_def bind_type_default_def dict_contains_def)
qed

text \<open>
  C2, evaluated on the code. The schema has a choice list without a default, one of
  whose options, \<^verbatim>\<open>"INT"\<close>, is a key of the table. Both loops raise \<^verbatim>\<open>TypeError\<close>: the
  first finds the option in the table and then subscripts the table with the list
  itself, the second asks whether the list is a key of the table.
\<close>

theorem choice_list_raises:
  "aio_params (PyObj 7) (PyInt 512) [] [(''image'', InputType (PyStr ''IMAGE'') None),
      (''dtype'', InputType (PyList [PyStr ''INT'', PyStr ''FLOAT'']) None)] = Inl TypeError
   \<and> selector_params (PyObj 7) (PyInt 512) [] [(''image'', InputType (PyStr ''IMAGE'') None),
      (''dtype'', InputType (PyList [PyStr ''INT'', PyStr ''FLOAT'']) None)] = Inl TypeError"
  by (simp add: aio_bind_def selector_bind_def declared_default_def bind_type_default_def
      dict_contains_def dict_getitem_def default_values_def)

section \<open>Properties of the call of the unit\<close>

lemma dict_keys_map_of:
  "k \<in> set (dict_keys d) \<longleftrightarrow> map_of d k \<noteq> None"
  by (simp add: dict_keys_def map_of_eq_None_iff)

lemma call_missing:
  assumes "map_of (methods aux_class) (FUNCTION aux_class) = Some f"
    and "p \<in> set (requires f)"
    and "map_of params (param_name p) = None"
  shows "call_unit aux_class params = Inl TypeError"
proof -
  from assms(3) have "param_name p \<notin> set (dict_keys params)"
    by (simp add: dict_keys_map_of)
  with assms(2) have "list_ex (\<lambda>p. param_kind p = PositionalOnly
      \<or> param_name p \<notin> set (dict_keys params)) (requires f)"
    by (auto simp: list_ex_iff)
  with assms(1) show ?thesis
    by (simp add: call_unit_def call_kw_def)
qed

lemma call_runs:
  assumes "map_of (methods aux_class) (FUNCTION aux_class) = Some f"
    and "accepts f keywords"
    and "set (dict_keys params) \<subseteq> set keywords"
    and "\<forall>p \<in> set (requires f). param_kind p \<noteq> PositionalOnly \<and> map_of params (param_name p) \<noteq> None"
  shows "call_unit aux_class params = body f params"
proof -
  from assms(2,3) have "accepts f (dict_keys params)"
    by (auto simp: accepts_def list_all_iff)
  moreover from assms(4) have "\<not> list_ex (\<lambda>p. param_kind p = PositionalOnly
      \<or> param_name p \<notin> set (dict_keys params)) (requires f)"
    by (auto simp: list_ex_iff dict_keys_map_of)
  ultimately show ?thesis
    using assms(1) by (simp add: call_unit_def call_kw_def)
qed

lemma bound_keys_in_schema:
  assumes "\<forall>name. map_of params name =
             Option.bind (map_of schema name) (spec_binding img resolution name)"
  shows "set (dict_keys params) \<subseteq> set (dict_keys schema)"
proof
  fix k
  assume "k \<in> set (dict_keys params)"
  then have "map_of params k \<noteq> None"
    by (simp add: dict_keys_map_of)
  with assms have "map_of schema k \<noteq> None"
    by (cases "map_of schema k") auto
  then show "k \<in> set (dict_keys schema)"
    by (simp add: dict_keys_map_of)
qed

text \<open>
  C4 (as amended). Neither loop signals a missing parameter. On a schema each of whose
  parameters is structural, has a declared default or has a hashable type tag, the loop
  returns, and the argument set binds exactly the parameters that are structural, have a
  declared default or have a numeric type name, each to the value of that source; any
  other parameter is left unbound. The error comes from the call of the entry point,
  which both adapters make once and whose outcome they pass on: the call raises
  \<^verbatim>\<open>TypeError\<close> whenever the entry point has a parameter without a default, other than
  the one that holds the instance, that the argument set leaves unbound. When the entry
  point has a place for the instance, accepts every name of the schema as a keyword, and
  each of its parameters without a default can be bound by keyword and is bound by the
  argument set, the body of the unit runs.
\<close>

theorem missing_parameter_at_call:
  assumes "merged_input_types aux_class = Inr schema"
    and "loop_safe schema"
    and "map_of (methods aux_class) (FUNCTION aux_class) = Some f"
  shows "(\<exists>params.
            aio_params img resolution [] schema = Inr params
          \<and> (\<forall>name. map_of params name =
                Option.bind (map_of schema name) (spec_binding img resolution name))
          \<and> (\<forall>p \<in> set (requires f). map_of params (param_name p) = None \<longrightarrow>
                call_unit aux_class params = Inl TypeError)
          \<and> (accepts f (dict_keys schema)
              \<and> (\<forall>p \<in> set (requires f).
                    param_kind p \<noteq> PositionalOnly \<and> map_of params (param_name p) \<noteq> None) \<longrightarrow>
                call_unit aux_class params = body f params)
          \<and> (preprocessor \<noteq> ''none'' \<and> map_of AUX_NODE_MAPPINGS preprocessor = Some aux_class \<longrightarrow>
               AIO_execute AUX_NODE_MAPPINGS preprocessor img (Some resolution) =
                 call_unit aux_class params))
       \<and> (\<exists>params.
            selector_params img resolution [] schema = Inr params
          \<and> (\<forall>name. map_of params name =
                Option.bind (map_of schema name) (spec_binding img resolution name))
          \<and> (\<forall>p \<in> set (requires f). map_of params (param_name p) = None \<longrightarrow>
                call_unit aux_class params = Inl TypeError)
          \<and> (accepts f (dict_keys schema)
              \<and> (\<forall>p \<in> set (requires f).
                    param_kind p \<noteq> PositionalOnly \<and> map_of params (param_name p) \<noteq> None) \<longrightarrow>
                call_unit aux_class params = body f params))"
proof -
  from assms(1) have d: "distinct (map fst schema)"
    by (rule merged_input_types_distinct)
  have calls: "(\<forall>p \<in> set (requires f). map_of params (param_name p) = None \<longrightarrow>
        call_unit aux_class params = Inl TypeError)
      \<and> (accepts f (dict_keys schema)
          \<and> (\<forall>p \<in> set (requires f).
                param_kind p \<noteq> PositionalOnly \<and> map_of params (param_name p) \<noteq> None) \<longrightarrow>
            call_unit aux_class params = body f params)"
    if "\<forall>name. map_of params name =
          Option.bind (map_of schema name) (spec_binding img resolution name)" for params
    using call_missing [OF assms(3), of _ params]
      call_runs [OF assms(3) _ bound_keys_in_schema [OF that]]
    by blast
  from assms(2) obtain pa where pa: "aio_params img resolution [] schema = Inr pa"
    using aio_params_total by blast
  have pa_bound: "\<forall>name. map_of pa name =
      Option.bind (map_of schema name) (spec_binding img resolution name)"
    using aio_params_result [OF d pa] by (auto split: option.splits)
  note pa_call = calls [OF pa_bound]
  have pa_execute: "AIO_execute AUX_NODE_MAPPINGS preprocessor img (Some resolution) =
      call_unit aux_class pa"
    if "preprocessor \<noteq> ''none''" "map_of AUX_NODE_MAPPINGS preprocessor = Some aux_class"
    using that assms(1) pa by (simp add: AIO_execute_def)
  from assms(2) obtain ps where ps: "selector_params img resolution [] schema = Inr ps"
    using selector_params_total by blast
  have ps_bound: "\<forall>name. map_of ps name =
      Option.bind (map_of schema name) (spec_binding img resolution name)"
    using selector_params_result [OF d ps] by (auto split: option.splits)
  note ps_call = calls [OF ps_bound]
  from pa pa_bound pa_call pa_execute ps ps_bound ps_call show ?thesis
    by blast
qed

theorem missing_parameter_at_call_witness:
  "merged_input_types \<lparr>INPUT_TYPES =
        [(''required'',
          [(''image'', InputType (PyStr ''IMAGE'') None),
           (''text'', InputType (PyStr ''STRING'') None)])],
      FUNCTION = ''execute'',
      methods =
        [(''execute'',
          \<lparr>parameters =
              [\<lparr>param_name = ''self'', param_kind = PositionalOrKeyword, has_default = False\<rparr>,
               \<lparr>param_name = ''image'', param_kind = PositionalOrKeyword, has_default = False\<rparr>,
               \<lparr>param_name = ''text'', param_kind = PositionalOrKeyword, has_default = False\<rparr>],
            var_positional = False, var_keyword = False, binds_instance = True,
            body = (\<lambda>params. Inr (Plain [PyObj 1]))\<rparr>)]\<rparr> = Inr [(''image'', InputType (PyStr ''IMAGE'') None),
      (''text'', InputType (PyStr ''STRING'') None)]
   \<and> loop_safe [(''image'', InputType (PyStr ''IMAGE'') None),
      (''text'', InputType (PyStr ''STRING'') None)]
   \<and> spec_binding (PyObj 7) (PyInt 512) ''text'' (InputType (PyStr ''STRING'') None) = None
   \<and> AIO_execute [(''TextUnit'', \<lparr>INPUT_TYPES =
        [(''required'',
          [(''image'', InputType (PyStr ''IMAGE'') None),
           (''text'', InputType (PyStr ''STRING'') None)])],
      FUNCTION = ''execute'',
      methods =
        [(''execute'',
          \<lparr>parameters =
              [\<lparr>param_name = ''self'', param_kind = PositionalOrKeyword, has_default = False\<rparr>,
               \<lparr>param_name = ''image'', param_kind = PositionalOrKeyword, has_default = False\<rparr>,
               \<lparr>param_name = ''text'', param_kind = PositionalOrKeyword, has_default = False\<rparr>],
            var_positional = False, var_keyword = False, binds_instance = True,
            body = (\<lambda>params. Inr (Plain [PyObj 1]))\<rparr>)]\<rparr>)] ''TextUnit'' (PyObj 7) (Some (PyInt 512)) = Inl TypeError"
proof -
  let ?u = "\<lparr>INPUT_TYPES =
        [(''required'',
          [(''image'', InputType (PyStr ''IMAGE'') None),
           (''text'', InputType (PyStr ''STRING'') None)])],
      FUNCTION = ''execute'',
      methods =
        [(''execute'',
          \<lparr>parameters =
              [\<lparr>param_name = ''self'', param_kind = PositionalOrKeyword, has_default = False\<rparr>,
               \<lparr>param_name = ''image'', param_kind = PositionalOrKeyword, has_default = False\<rparr>,
               \<lparr>param_name = ''text'', param_kind = PositionalOrKeyword, has_default = False\<rparr>],
            var_positional = False, var_keyword = False, binds_instance = True,
            body = (\<lambda>params. Inr (Plain [PyObj 1]))\<rparr>)]\<rparr>"
  let ?f = "\<lparr>parameters =
              [\<lparr>param_name = ''self'', param_kind = PositionalOrKeyword, has_default = False\<rparr>,
               \<lparr>param_name = ''image'', param_kind = PositionalOrKeyword, has_default = False\<rparr>,
               \<lparr>param_name = ''text'', param_kind = PositionalOrKeyword, has_default = False\<rparr>],
            var_positional = False, var_keyword = False, binds_instance = True,
            body = (\<lambda>params. Inr (Plain [PyObj 1]))\<rparr>"
  let ?text = "\<lparr>param_name = ''text'', param_kind = PositionalOrKeyword, has_default = False\<rparr>"
  let ?schema = "[(''image'', InputType (PyStr ''IMAGE'') None),
      (''text'', InputType (PyStr ''STRING'') None)]"
  have m: "merged_input_types ?u = Inr ?schema"
    by (simp add: merged_input_types_def dict_update_def)
  have safe: "loop_safe ?schema"
    by (simp add: loop_safe_def)
  have entry: "map_of (methods ?u) (FUNCTION ?u) = Some ?f"
    by simp
  have needed: "?text \<in> set (requires ?f)"
    by (simp add: requires_def instance_parameter_def)
  have unsourced: "spec_binding (PyObj 7) (PyInt 512) ''text'' (InputType (PyStr ''STRING'') None) = None"
    by (simp add: spec_binding_def declared_default_def type_default_def default_values_def)
  have n: "''TextUnit'' \<noteq> ''none'' \<and> map_of [(''TextUnit'', ?u)] ''TextUnit'' = Some ?u"
    by simp
  from missing_parameter_at_call [OF m safe entry,
      of "PyObj 7" "PyInt 512" "''TextUnit''" "[(''TextUnit'', ?u)]", THEN conjunct1] n
  obtain params where
    bound: "\<forall>name. map_of params name =
        Option.bind (map_of ?schema name) (spec_binding (PyObj 7) (PyInt 512) name)"
    and call: "\<forall>p \<in> set (requires ?f). map_of params (param_name p) = None \<longrightarrow>
        call_unit ?u params = Inl TypeError"
    and execute: "AIO_execute [(''TextUnit'', ?u)] ''TextUnit'' (PyObj 7) (Some (PyInt 512)) =
        call_unit ?u params"
    by blast
  from bound unsourced have "map_of params ''text'' = None"
    by simp
  with bspec [OF call needed] have "call_unit ?u params = Inl TypeError"
    by simp
  with execute m safe unsourced show ?thesis
    by simp
qed

text \<open>
  C4 as stated fails. The schema requires \<^verbatim>\<open>text\<close>, which the caller does not supply and
  which has neither a declared default nor a numeric type name: the loop returns the
  argument set without it, and the adapter returns the result of the unit, whose entry
  point gives \<^verbatim>\<open>text\<close> a default of its own.
\<close>

theorem missing_parameter_not_signalled:
  "spec_binding (PyObj 7) (PyInt 512) ''text'' (InputType (PyStr ''STRING'') None) = None
   \<and> aio_params (PyObj 7) (PyInt 512) [] [(''image'', InputType (PyStr ''IMAGE'') None),
      (''text'', InputType (PyStr ''STRING'') None)] = Inr [(''image'', PyObj 7)]
   \<and> selector_params (PyObj 7) (PyInt 512) [] [(''image'', InputType (PyStr ''IMAGE'') None),
      (''text'', InputType (PyStr ''STRING'') None)] = Inr [(''image'', PyObj 7)]
   \<and> AIO_execute [(''TextUnit'', \<lparr>INPUT_TYPES =
        [(''required'',
          [(''image'', InputType (PyStr ''IMAGE'') None),
           (''text'', InputType (PyStr ''STRING'') None)])],
      FUNCTION = ''execute'',
      methods =
        [(''execute'',
          \<lparr>parameters =
              [\<lparr>param_name = ''self'', param_kind = PositionalOrKeyword, has_default = False\<rparr>,
               \<lparr>param_name = ''image'', param_kind = PositionalOrKeyword, has_default = False\<rparr>,
               \<lparr>param_name = ''text'', param_kind = PositionalOrKeyword, has_default = True\<rparr>],
            var_positional = False, var_keyword = False, binds_instance = True,
            body = (\<lambda>params. Inr (Plain [PyObj 1]))\<rparr>)]\<rparr>)] ''TextUnit'' (PyObj 7) None = Inr (Plain [PyObj 1])"
  by (simp add: spec_binding_def declared_default_def type_default_def default_values_def
      aio_bind_def selector_bind_def bind_type_default_def dict_contains_def dict_getitem_def
      AIO_execute_def merged_input_types_def dict_update_def call_unit_def call_kw_def
      dict_keys_def accepts_def keyword_accepted_def keyword_parameter_def
      instance_parameter_def no_instance_slot_def requires_def)

section \<open>Properties of the returned value\<close>

text \<open>
  C6 (as amended). \<^verbatim>\<open>AIO_Preprocessor.execute\<close> returns what the entry point of the unit
  returned, unchanged, whether it is a plain tuple or a structured record; it does not
  look at the shape. \<^verbatim>\<open>ControlNetPreprocessorSelector.get_preprocessor\<close> tells the two
  shapes apart and in both returns the tuple of the ControlNet model followed by the
  items of the result tuple.
\<close>

theorem adapter_return_shapes:
  assumes "preprocessor \<noteq> ''none''"
    and "map_of AUX_NODE_MAPPINGS preprocessor = Some aux_class"
    and "merged_input_types aux_class = Inr schema"
  shows "(\<forall>params predict.
            aio_params img resolution [] schema = Inr params
            \<and> call_unit aux_class params = Inr predict \<longrightarrow>
              AIO_execute AUX_NODE_MAPPINGS preprocessor img (Some resolution) = Inr predict)
       \<and> (\<forall>params predict cnmodel.
            load_controlnet cn = Inr cnmodel
            \<and> select_styles prompt my_unique_id = Inr (PyStr preprocessor)
            \<and> selector_params img resolution [] schema = Inr params
            \<and> call_unit aux_class params = Inr predict \<longrightarrow>
              get_preprocessor load_controlnet AUX_NODE_MAPPINGS cn img (Some resolution)
                  prompt my_unique_id = selector_return cnmodel predict
            \<and> (\<forall>t. predict = Plain t \<longrightarrow> selector_return cnmodel predict = Inr (cnmodel # t))
            \<and> (\<forall>d t. predict = Structured d \<and> map_of d ''result'' = Some (PyTuple t) \<longrightarrow>
                  selector_return cnmodel predict = Inr (cnmodel # t)))"
proof -
  have aio: "AIO_execute AUX_NODE_MAPPINGS preprocessor img (Some resolution) = Inr predict"
    if "aio_params img resolution [] schema = Inr params"
      and "call_unit aux_class params = Inr predict" for params predict
    using that assms by (simp add: AIO_execute_def)
  have lookup: "dict_getitem AUX_NODE_MAPPINGS (PyStr preprocessor) = Inr aux_class"
    using assms(2) by (simp add: dict_getitem_def)
  have sel: "get_preprocessor load_controlnet AUX_NODE_MAPPINGS cn img (Some resolution)
        prompt my_unique_id = selector_return cnmodel predict"
    if "load_controlnet cn = Inr cnmodel"
      and "select_styles prompt my_unique_id = Inr (PyStr preprocessor)"
      and "selector_params img resolution [] schema = Inr params"
      and "call_unit aux_class params = Inr predict" for params predict cnmodel
    using that assms(1,3) lookup by (simp add: get_preprocessor_def)
  have plain: "selector_return cnmodel (Plain t) = Inr (cnmodel # t)" for cnmodel t
    by (simp add: selector_return_def)
  have structured: "selector_return cnmodel (Structured d) = Inr (cnmodel # t)"
    if "map_of d ''result'' = Some (PyTuple t)" for cnmodel d t
    using that by (simp add: selector_return_def)
  from aio sel plain structured show ?thesis
    by blast
qed

theorem adapter_return_shapes_witness:
  "''TextUnit'' \<noteq> ''none''
   \<and> merged_input_types \<lparr>INPUT_TYPES =
        [(''required'',
          [(''image'', InputType (PyStr ''IMAGE'') None),
           (''text'', InputType (PyStr ''STRING'') None)])],
      FUNCTION = ''execute'',
      methods =
        [(''execute'',
          \<lparr>parameters =
              [\<lparr>param_name = ''self'', param_kind = PositionalOrKeyword, has_default = False\<rparr>,
               \<lparr>param_name = ''image'', param_kind = PositionalOrKeyword, has_default = False\<rparr>,
               \<lparr>param_name = ''text'', param_kind = PositionalOrKeyword, has_default = True\<rparr>],
            var_positional = False, var_keyword = False, binds_instance = True,
            body = (\<lambda>params. Inr (Plain [PyObj 1]))\<rparr>)]\<rparr> = Inr [(''image'', InputType (PyStr ''IMAGE'') None),
      (''text'', InputType (PyStr ''STRING'') None)]
   \<and> AIO_execute [(''TextUnit'', \<lparr>INPUT_TYPES =
        [(''required'',
          [(''image'', InputType (PyStr ''IMAGE'') None),
           (''text'', InputType (PyStr ''STRING'') None)])],
      FUNCTION = ''execute'',
      methods =
        [(''execute'',
          \<lparr>parameters =
              [\<lparr>param_name = ''self'', param_kind = PositionalOrKeyword, has_default = False\<rparr>,
               \<lparr>param_name = ''image'', param_kind = PositionalOrKeyword, has_default = False\<rparr>,
               \<lparr>param_name = ''text'', param_kind = PositionalOrKeyword, has_default = True\<rparr>],
            var_positional = False, var_keyword = False, binds_instance = True,
            body = (\<lambda>params. Inr (Plain [PyObj 1]))\<rparr>)]\<rparr>)] ''TextUnit'' (PyObj 7) (Some (PyInt 512)) =
       Inr (Plain [PyObj 1])
   \<and> get_preprocessor (\<lambda>cn. Inr (PyObj 9)) [(''TextUnit'', \<lparr>INPUT_TYPES =
        [(''required'',
          [(''image'', InputType (PyStr ''IMAGE'') None),
           (''text'', InputType (PyStr ''STRING'') None)])],
      FUNCTION = ''execute'',
      methods =
        [(''execute'',
          \<lparr>parameters =
              [\<lparr>param_name = ''self'', param_kind = PositionalOrKeyword, has_default = False\<rparr>,
               \<lparr>param_name = ''image'', param_kind = PositionalOrKeyword, has_default = False\<rparr>,
               \<lparr>param_name = ''text'', param_kind = PositionalOrKeyword, has_default = True\<rparr>],
            var_positional = False, var_keyword = False, binds_instance = True,
            body = (\<lambda>params. Inr (Plain [PyObj 1]))\<rparr>)]\<rparr>)] ''control.safetensors''
        (PyObj 7) (Some (PyInt 512)) (Some [(''5'', [(''select_styles'', PyStr ''TextUnit'')])]) (Some ''5'') = Inr [PyObj 9, PyObj 1]"
proof -
  let ?u = "\<lparr>INPUT_TYPES =
        [(''required'',
          [(''image'', InputType (PyStr ''IMAGE'') None),
           (''text'', InputType (PyStr ''STRING'') None)])],
      FUNCTION = ''execute'',
      methods =
        [(''execute'',
          \<lparr>parameters =
              [\<lparr>param_name = ''self'', param_kind = PositionalOrKeyword, has_default = False\<rparr>,
               \<lparr>param_name = ''image'', param_kind = PositionalOrKeyword, has_default = False\<rparr>,
               \<lparr>param_name = ''text'', param_kind = PositionalOrKeyword, has_default = True\<rparr>],
            var_positional = False, var_keyword = False, binds_instance = True,
            body = (\<lambda>params. Inr (Plain [PyObj 1]))\<rparr>)]\<rparr>"
  let ?schema = "[(''image'', InputType (PyStr ''IMAGE'') None),
      (''text'', InputType (PyStr ''STRING'') None)]"
  let ?params = "[(''image'', PyObj 7)]"
  have n: "''TextUnit'' \<noteq> ''none''"
    by simp
  have r: "map_of [(''TextUnit'', ?u)] ''TextUnit'' = Some ?u"
    by simp
  have m: "merged_input_types ?u = Inr ?schema"
    by (simp add: merged_input_types_def dict_update_def)
  have la: "aio_params (PyObj 7) (PyInt 512) [] ?schema = Inr ?params"
    by (simp add: aio_bind_def declared_default_def bind_type_default_def dict_contains_def
        default_values_def)
  have ls: "selector_params (PyObj 7) (PyInt 512) [] ?schema = Inr ?params"
    by (simp add: selector_bind_def declared_default_def bind_type_default_def dict_contains_def
        default_values_def)
  have c: "call_unit ?u ?params = Inr (Plain [PyObj 1])"
    by (simp add: call_unit_def call_kw_def dict_keys_def accepts_def keyword_accepted_def
        keyword_parameter_def instance_parameter_def no_instance_slot_def requires_def)
  have s: "select_styles (Some [(''5'', [(''select_styles'', PyStr ''TextUnit'')])]) (Some ''5'') = Inr (PyStr ''TextUnit'')"
    by (simp add: select_styles_def)
  note inst = adapter_return_shapes [OF n r m, of "PyObj 7" "PyInt 512" "\<lambda>cn. Inr (PyObj 9)"
      "''control.safetensors''" "(Some [(''5'', [(''select_styles'', PyStr ''TextUnit'')])])" "Some ''5''"]
  from inst la c have a: "AIO_execute [(''TextUnit'', ?u)] ''TextUnit'' (PyObj 7) (Some (PyInt 512)) =
      Inr (Plain [PyObj 1])"
    by blast
  from inst ls c s have "get_preprocessor (\<lambda>cn. Inr (PyObj 9)) [(''TextUnit'', ?u)]
      ''control.safetensors'' (PyObj 7) (Some (PyInt 512)) (Some [(''5'', [(''select_styles'', PyStr ''TextUnit'')])]) (Some ''5'') =
      selector_return (PyObj 9) (Plain [PyObj 1])"
    by blast
  then have g: "get_preprocessor (\<lambda>cn. Inr (PyObj 9)) [(''TextUnit'', ?u)]
      ''control.safetensors'' (PyObj 7) (Some (PyInt 512)) (Some [(''5'', [(''select_styles'', PyStr ''TextUnit'')])]) (Some ''5'') =
      Inr [PyObj 9, PyObj 1]"
    by (simp add: selector_return_def)
  from n m a g show ?thesis
    by (intro conjI)
qed

text \<open>
  C6 as stated fails for \<^verbatim>\<open>AIO_Preprocessor.execute\<close>: when the unit returns a structured
  record, the adapter returns that record, not its result tuple, while
  \<^verbatim>\<open>get_preprocessor\<close> on the same unit returns the tuple.
\<close>

theorem AIO_execute_structured_unchanged:
  "AIO_execute [(''TextUnit'', \<lparr>INPUT_TYPES =
        [(''required'',
          [(''image'', InputType (PyStr ''IMAGE'') None),
           (''text'', InputType (PyStr ''STRING'') None)])],
      FUNCTION = ''execute'',
      methods =
        [(''execute'',
          \<lparr>parameters =
              [\<lparr>param_name = ''self'', param_kind = PositionalOrKeyword, has_default = False\<rparr>,
               \<lparr>param_name = ''image'', param_kind = PositionalOrKeyword, has_default = False\<rparr>,
               \<lparr>param_name = ''text'', param_kind = PositionalOrKeyword, has_default = True\<rparr>],
            var_positional = False, var_keyword = False, binds_instance = True,
            body = (\<lambda>params. Inr (Structured [(''result'', PyTuple [PyObj 1]), (''expand'', PyDict [])]))\<rparr>)]\<rparr>)] ''TextUnit'' (PyObj 7) None =
     Inr (Structured [(''result'', PyTuple [PyObj 1]), (''expand'', PyDict [])])
   \<and> AIO_execute [(''TextUnit'', \<lparr>INPUT_TYPES =
        [(''required'',
          [(''image'', InputType (PyStr ''IMAGE'') None),
           (''text'', InputType (PyStr ''STRING'') None)])],
      FUNCTION = ''execute'',
      methods =
        [(''execute'',
          \<lparr>parameters =
              [\<lparr>param_name = ''self'', param_kind = PositionalOrKeyword, has_default = False\<rparr>,
               \<lparr>param_name = ''image'', param_kind = PositionalOrKeyword, has_default = False\<rparr>,
               \<lparr>param_name = ''text'', param_kind = PositionalOrKeyword, has_default = True\<rparr>],
            var_positional = False, var_keyword = False, binds_instance = True,
            body = (\<lambda>params. Inr (Structured [(''result'', PyTuple [PyObj 1]), (''expand'', PyDict [])]))\<rparr>)]\<rparr>)] ''TextUnit'' (PyObj 7) None \<noteq> Inr (Plain [PyObj 1])
   \<and> get_preprocessor (\<lambda>cn. Inr (PyObj 9)) [(''TextUnit'', \<lparr>INPUT_TYPES =
        [(''required'',
          [(''image'', InputType (PyStr ''IMAGE'') None),
           (''text'', InputType (PyStr ''STRING'') None)])],
      FUNCTION = ''execute'',
      methods =
        [(''execute'',
          \<lparr>parameters =
              [\<lparr>param_name = ''self'', param_kind = PositionalOrKeyword, has_default = False\<rparr>,
               \<lparr>param_name = ''image'', param_kind = PositionalOrKeyword, has_default = False\<rparr>,
               \<lparr>param_name = ''text'', param_kind = PositionalOrKeyword, has_default = True\<rparr>],
            var_positional = False, var_keyword = False, binds_instance = True,
            body = (\<lambda>params. Inr (Structured [(''result'', PyTuple [PyObj 1]), (''expand'', PyDict [])]))\<rparr>)]\<rparr>)] ''control.safetensors''
        (PyObj 7) None (Some [(''5'', [(''select_styles'', PyStr ''TextUnit'')])]) (Some ''5'') = Inr [PyObj 9, PyObj 1]"
  by (simp add: spec_binding_def declared_default_def default_values_def
      aio_bind_def selector_bind_def bind_type_default_def dict_contains_def dict_getitem_def
      AIO_execute_def get_preprocessor_def select_styles_def selector_return_def
      merged_input_types_def dict_update_def call_unit_def call_kw_def dict_keys_def
      accepts_def keyword_accepted_def keyword_parameter_def instance_parameter_def
      no_instance_slot_def requires_def)

end
